theory Spec2Isabelle
  imports Main
begin

section \<open>The dmrecon application: data\<close>

text \<open>
  The development embeds \<^verbatim>\<open>src/apps/dmrecon/dmrecon.cc\<close>: the function
  \<^verbatim>\<open>reconstruct\<close> and the part of \<^verbatim>\<open>main\<close> that follows the option loop
  (lines 154 to 252). The values of the local variables of \<^verbatim>\<open>main\<close> when the option
  loop has ended are the input of the model (record \<open>Options\<close>).

  The collaborators whose code is not part of the application file (the scene, the
  views, \<^verbatim>\<open>mvs::DMRecon\<close>) are parameters of the model (record \<open>Env\<close>). An
  exception derived from \<^verbatim>\<open>std::exception\<close> is the string its \<^verbatim>\<open>what()\<close>
  returns. Everything the program does to the outside (console lines, status
  writes of the progress printer, reconstruction calls, saves, the display thread)
  is appended to a chronological trace.

  The loop over the job list carries an OpenMP directive in the source. The model
  runs its iterations one after the other in index order, which is what one worker
  does; interleavings of several workers are outside this embedding.
\<close>

datatype ProgressStyle = PROGRESS_SILENT | PROGRESS_SIMPLE | PROGRESS_FANCY

text \<open>The fields of \<^verbatim>\<open>mvs::Settings\<close> that \<^verbatim>\<open>main\<close> reads or writes after the
  option loop.\<close>

record Settings =
  refViewNr :: nat
  scale :: int
  quiet :: bool
  writePlyFile :: bool
  plyPath :: string
  logPath :: string

text \<open>A view, as far as \<^verbatim>\<open>main\<close> looks at it: \<^verbatim>\<open>is_camera_valid()\<close> and the
  names for which \<^verbatim>\<open>has_embedding\<close> answers true. The view list of a scene holds
  pointers; \<open>None\<close> is the NULL pointer.\<close>

record View =
  camera_valid :: bool
  embeddings :: "string list"

type_synonym Scene = "View option list"

definition has_embedding :: "View \<Rightarrow> string \<Rightarrow> bool" where
  "has_embedding v name = (name \<in> set (embeddings v))"

datatype ViewStatus = Pending | Running | Done | Failed

datatype Event =
    Cout string
  | Cerr string
  | SetBasePath string
  | SetNumViews nat
  | SetStatus nat ViewStatus
  | DMReconCtor nat
  | DMReconStart nat
  | SaveMveFile nat
  | SaveViews
  | PtCreate
  | Stop
  | PtJoin

record State =
  scene :: Scene
  registry :: "nat \<rightharpoonup> ViewStatus"
  trace :: "Event list"

text \<open>How \<^verbatim>\<open>main\<close> ends: it returns a status, or an exception leaves it.\<close>

datatype Exit = Returned int | Uncaught string

text \<open>
  The collaborators. \<open>load_scene\<close> stands for \<^verbatim>\<open>load_scene\<close> followed by
  \<^verbatim>\<open>get_bundle\<close> (\<open>Inl\<close> is the exception caught at line 164). \<open>DMRecon_ctor\<close>
  is the constructor of \<^verbatim>\<open>mvs::DMRecon\<close> and \<open>DMRecon_start\<close> its \<^verbatim>\<open>start()\<close>;
  \<open>Some e\<close> is an exception, and \<open>DMRecon_start\<close> also yields the scene it leaves
  behind. \<open>save_mve_file\<close> and \<open>save_views\<close> write to disc and may throw.
\<close>

record Env =
  load_scene :: "string \<Rightarrow> string + Scene"
  DMRecon_ctor :: "Scene \<Rightarrow> Settings \<Rightarrow> string option"
  DMRecon_start :: "Scene \<Rightarrow> Settings \<Rightarrow> string option \<times> Scene"
  save_mve_file :: "Scene \<Rightarrow> nat \<Rightarrow> string option"
  save_views :: "Scene \<Rightarrow> string option"

text \<open>The local variables of \<^verbatim>\<open>main\<close> after the option loop (lines 80 to 152).
  \<open>master_id\<close> and the elements of \<open>listIDs\<close> are C++ \<^verbatim>\<open>int\<close>s.\<close>

record Options =
  basePath :: string
  writeply :: bool
  plyDest :: string
  logDest :: string
  master_id :: int
  force_recon :: bool
  progress_style :: ProgressStyle
  mySettings :: Settings
  listIDs :: "int list"

section \<open>Integer conversions and number printing\<close>

text \<open>\<^verbatim>\<open>int\<close> to \<^verbatim>\<open>std::size_t\<close> (64 bits, unsigned) and back to \<^verbatim>\<open>int\<close>
  (32 bits, two's complement), with the wrap-around written out.\<close>

definition to_size_t :: "int \<Rightarrow> nat" where
  "to_size_t i = nat (i mod 2 ^ 64)"

definition to_int :: "nat \<Rightarrow> int" where
  "to_int n = (int n + 2 ^ 31) mod 2 ^ 32 - 2 ^ 31"

definition digit_char :: "nat \<Rightarrow> char" where
  "digit_char d = ''0123456789'' ! (d mod 10)"

fun show_nat :: "nat \<Rightarrow> string" where
  "show_nat n = (if n < 10 then [digit_char n] else show_nat (n div 10) @ [digit_char n])"

declare show_nat.simps [simp del]

definition show_int :: "int \<Rightarrow> string" where
  "show_int i = (if i < 0 then CHR ''-'' # show_nat (nat (- i)) else show_nat (nat i))"

section \<open>The progress printer and the progress handle\<close>

definition emit :: "Event \<Rightarrow> State \<Rightarrow> State" where
  "emit e st = st\<lparr>trace := trace st @ [e]\<rparr>"

text \<open>
  Modelled from the spec: \<^verbatim>\<open>FancyProgressPrinter\<close> and \<^verbatim>\<open>ProgressHandle\<close> are
  declared in \<^verbatim>\<open>fancy_progress_printer.h\<close>, which is not among the sources. The
  registry maps a view identifier to its status; \<^verbatim>\<open>addRefView\<close> and
  \<^verbatim>\<open>addRefViews\<close> register identifiers in \<open>Pending\<close> (registering an identifier
  again resets it to \<open>Pending\<close>: the spec treats duplicates as independent jobs).
  Every status write is also recorded in the trace.
\<close>

definition setStatus :: "nat \<Rightarrow> ViewStatus \<Rightarrow> State \<Rightarrow> State" where
  "setStatus v s st = emit (SetStatus v s) (st\<lparr>registry := (registry st)(v \<mapsto> s)\<rparr>)"

definition addRefView :: "int \<Rightarrow> State \<Rightarrow> State" where
  "addRefView viewID st = setStatus (to_size_t viewID) Pending st"

fun addRefViews :: "int list \<Rightarrow> State \<Rightarrow> State" where
  "addRefViews [] st = st"
| "addRefViews (v # vs) st = addRefViews vs (addRefView v st)"

text \<open>
  Modelled from the spec: the scoped handle. Acquiring it marks the view of the
  settings \<open>Running\<close>; \<open>setDone\<close> records the success signal; releasing it writes
  \<open>Done\<close> when the signal was recorded and \<open>Failed\<close> otherwise (the comment at lines
  28 to 30 of the source says the same of the destructor).
\<close>

record ProgressHandle =
  h_view :: nat
  h_recon :: bool
  h_done :: bool

definition ProgressHandle_acquire :: "Settings \<Rightarrow> State \<Rightarrow> ProgressHandle \<times> State" where
  "ProgressHandle_acquire settings st =
     (\<lparr>h_view = refViewNr settings, h_recon = False, h_done = False\<rparr>,
      setStatus (refViewNr settings) Running st)"

definition setRecon :: "ProgressHandle \<Rightarrow> ProgressHandle" where
  "setRecon h = h\<lparr>h_recon := True\<rparr>"

definition setDone :: "ProgressHandle \<Rightarrow> ProgressHandle" where
  "setDone h = h\<lparr>h_done := True\<rparr>"

definition ProgressHandle_release :: "ProgressHandle \<Rightarrow> State \<Rightarrow> State" where
  "ProgressHandle_release h st = setStatus (h_view h) (if h_done h then Done else Failed) st"

section \<open>reconstruct\<close>

text \<open>
  Lines 25 to 36. The handle is the first local object, so its destructor runs on
  every way out of the function: after an exception of the constructor of
  \<^verbatim>\<open>DMRecon\<close>, after an exception of \<^verbatim>\<open>start()\<close>, and after \<^verbatim>\<open>setDone()\<close>.
  The result is the exception that leaves the function, if any, and the new state.
\<close>

definition reconstruct :: "Env \<Rightarrow> Settings \<Rightarrow> State \<Rightarrow> string option \<times> State" where
  "reconstruct env settings st =
     (let (handle, st1) = ProgressHandle_acquire settings st;
          st2 = emit (DMReconCtor (refViewNr settings)) st1
      in case DMRecon_ctor env (scene st2) settings of
           Some err \<Rightarrow> (Some err, ProgressHandle_release handle st2)
         | None \<Rightarrow>
             (let handle1 = setRecon handle;
                  (thrown, scene') = DMRecon_start env (scene st2) settings;
                  st3 = (emit (DMReconStart (refViewNr settings)) st2)\<lparr>scene := scene'\<rparr>
              in case thrown of
                   Some err \<Rightarrow> (Some err, ProgressHandle_release handle1 st3)
                 | None \<Rightarrow> (None, ProgressHandle_release (setDone handle1) st3)))"

section \<open>main\<close>

text \<open>Lines 154 to 156 and 169 to 178: the settings handed to every reconstruction.
  Each \<^verbatim>\<open>+=\<close> of the source is one step.\<close>

definition mvs_settings :: "Options \<Rightarrow> Settings" where
  "mvs_settings opts =
     (let s0 = (if progress_style opts \<noteq> PROGRESS_SIMPLE
                then (mySettings opts)\<lparr>quiet := True\<rparr> else mySettings opts);
          s1 = s0\<lparr>writePlyFile := writeply opts\<rparr>;
          s2 = s1\<lparr>plyPath := basePath opts\<rparr>;
          s3 = s2\<lparr>plyPath := plyPath s2 @ ''/''\<rparr>;
          s4 = s3\<lparr>plyPath := plyPath s3 @ plyDest opts\<rparr>;
          s5 = s4\<lparr>plyPath := plyPath s4 @ ''/''\<rparr>;
          s6 = s5\<lparr>logPath := basePath opts\<rparr>;
          s7 = s6\<lparr>plyPath := plyPath s6 @ ''/''\<rparr>;
          s8 = s7\<lparr>logPath := logPath s7 @ logDest opts\<rparr>
      in s8\<lparr>logPath := logPath s8 @ ''/''\<rparr>)"

text \<open>Lines 204 to 211: an empty list is filled with every index of the view list;
  the index is a \<^verbatim>\<open>std::size_t\<close> pushed into a vector of \<^verbatim>\<open>int\<close>.\<close>

function fill_ids :: "nat \<Rightarrow> nat \<Rightarrow> int list \<Rightarrow> int list" where
  "fill_ids i n ids = (if i < n then fill_ids (Suc i) n (ids @ [to_int i]) else ids)"
  by pat_completeness auto
termination
  by (relation "measure (\<lambda>(i, n, ids). n - i)") auto

declare fill_ids.simps [simp del]

definition select_ids :: "Scene \<Rightarrow> int list \<Rightarrow> int list \<times> Event" where
  "select_ids views ids =
     (if ids = [] then (fill_ids 0 (length views) ids, Cout ''Reconstructing all views...'')
      else (ids, Cout ''Reconstructing views from list...''))"

text \<open>Lines 228 to 238: the body of an admitted job. The reconstruction and the save
  of the view share one handler, which prints the message of the exception.\<close>

definition dispatch :: "Env \<Rightarrow> Settings \<Rightarrow> nat \<Rightarrow> State \<Rightarrow> State" where
  "dispatch env my_settings view_id st =
     (let settings = my_settings\<lparr>refViewNr := view_id\<rparr>;
          (thrown, st1) = reconstruct env settings st
      in case thrown of
           Some err \<Rightarrow> emit (Cerr err) st1
         | None \<Rightarrow>
             (let st2 = emit (SaveMveFile view_id) st1
              in case save_mve_file env (scene st2) view_id of
                   Some err \<Rightarrow> emit (Cerr err) st2
                 | None \<Rightarrow> st2))"

text \<open>Lines 217 to 238: one iteration of the loop, for the list element \<open>x\<close>.
  The test of line 223 looks at the pointer first and asks the view for its camera
  only when the pointer is not NULL.\<close>

definition job :: "Env \<Rightarrow> bool \<Rightarrow> Settings \<Rightarrow> string \<Rightarrow> int \<Rightarrow> State \<Rightarrow> State" where
  "job env force my_settings embedding_name x st =
     (let views = scene st; view_id = to_size_t x
      in if view_id \<ge> length views
         then emit (Cout (''ID: '' @ show_nat view_id @ '' is too large! Skipping...'')) st
         else case views ! view_id of
                None \<Rightarrow> st
              | Some v \<Rightarrow>
                  if \<not> camera_valid v then st
                  else if \<not> force \<and> has_embedding v embedding_name then st
                  else dispatch env my_settings view_id st)"

text \<open>Lines 215 to 239: the loop over the indices of the job list.\<close>

function job_loop ::
  "Env \<Rightarrow> bool \<Rightarrow> Settings \<Rightarrow> string \<Rightarrow> int list \<Rightarrow> nat \<Rightarrow> State \<Rightarrow> State" where
  "job_loop env force my_settings embedding_name ids i st =
     (if i < length ids
      then job_loop env force my_settings embedding_name ids (Suc i)
             (job env force my_settings embedding_name (ids ! i) st)
      else st)"
  by pat_completeness auto
termination
  by (relation "measure (\<lambda>(env, force, my_settings, embedding_name, ids, i, st). length ids - i)")
    auto

declare job_loop.simps [simp del]

text \<open>Lines 199 to 240: the branch for a list of views.\<close>

definition run_batch :: "Env \<Rightarrow> Options \<Rightarrow> Settings \<Rightarrow> State \<Rightarrow> State" where
  "run_batch env opts my_settings st =
     (let embedding_name = ''depth-L'' @ show_int (scale my_settings);
          (ids, line) = select_ids (scene st) (listIDs opts);
          st1 = addRefViews ids (emit line st)
      in job_loop env (force_recon opts) my_settings embedding_name ids 0 st1)"

text \<open>Lines 186 to 198: the branch for one master view.\<close>

definition run_single :: "Env \<Rightarrow> Options \<Rightarrow> Settings \<Rightarrow> State \<Rightarrow> State" where
  "run_single env opts my_settings st =
     (let st1 = emit (Cout (''Reconstructing view with ID '' @ show_int (master_id opts))) st;
          settings = my_settings\<lparr>refViewNr := to_size_t (master_id opts)\<rparr>;
          st2 = addRefView (master_id opts) st1;
          (thrown, st3) = reconstruct env settings st2
      in case thrown of
           Some err \<Rightarrow> emit (Cerr err) st3
         | None \<Rightarrow> st3)"

text \<open>Lines 242 to 252: the display thread is stopped and joined, the views are
  saved. An exception of \<^verbatim>\<open>save_views\<close> is not caught.\<close>

definition finish :: "Env \<Rightarrow> Options \<Rightarrow> State \<Rightarrow> Exit \<times> State" where
  "finish env opts st =
     (let st1 = (if progress_style opts = PROGRESS_FANCY then emit PtJoin (emit Stop st) else st);
          st2 = emit SaveViews (emit (Cout ''Saving views back to disc...'') st1)
      in case save_views env (scene st2) of
           Some err \<Rightarrow> (Uncaught err, st2)
         | None \<Rightarrow> (Returned 0, st2))"

definition initial_state :: State where
  "initial_state = \<lparr>scene = [], registry = Map.empty, trace = []\<rparr>"

text \<open>Lines 159 and 180 to 184: the loaded scene, the progress printer told the base
  path and the number of views, and the display thread created for the fancy style.\<close>

definition startup :: "Options \<Rightarrow> Scene \<Rightarrow> State" where
  "startup opts views =
     (let st0 = initial_state\<lparr>scene := views\<rparr>;
          st1 = emit (SetNumViews (length views)) (emit (SetBasePath (basePath opts)) st0)
      in if progress_style opts = PROGRESS_FANCY then emit PtCreate st1 else st1)"

text \<open>Lines 154 to 252.\<close>

definition main :: "Env \<Rightarrow> Options \<Rightarrow> Exit \<times> State" where
  "main env opts =
     (case load_scene env (basePath opts) of
        Inl err \<Rightarrow> (Returned 1, emit (Cout (''Error loading scene: '' @ err)) initial_state)
      | Inr views \<Rightarrow>
          (let my_settings = mvs_settings opts;
               st2 = startup opts views;
               st3 = (if master_id opts \<ge> 0 then run_single env opts my_settings st2
                      else run_batch env opts my_settings st2)
           in finish env opts st3))"

section \<open>Observations\<close>

text \<open>The status writes of a trace, in order.\<close>

fun status_writes :: "Event list \<Rightarrow> (nat \<times> ViewStatus) list" where
  "status_writes [] = []"
| "status_writes (SetStatus v s # es) = (v, s) # status_writes es"
| "status_writes (e # es) = status_writes es"

text \<open>The events a step has appended to the trace.\<close>

definition new_events :: "State \<Rightarrow> State \<Rightarrow> Event list" where
  "new_events st st' = drop (length (trace st)) (trace st')"




section \<open>Example inputs\<close>

definition good_view :: View where
  "good_view = \<lparr>camera_valid = True, embeddings = []\<rparr>"

definition bad_view :: View where
  "bad_view = \<lparr>camera_valid = False, embeddings = []\<rparr>"

text \<open>A stand-in for the collaborators: the scene loads as \<open>views\<close>; the constructor
  of the reconstruction refuses a master view that is out of range, NULL or without a
  valid camera; \<open>start\<close> throws for the views of \<open>failing\<close> and otherwise stores the
  depth map of the scale in the master view; saving a view of \<open>unsavable\<close> throws.\<close>

definition stub_env :: "Scene \<Rightarrow> nat list \<Rightarrow> nat list \<Rightarrow> Env" where
  "stub_env views failing unsavable =
     \<lparr>load_scene = (\<lambda>path. Inr views),
      DMRecon_ctor = (\<lambda>sc s.
        if refViewNr s < length sc \<and> (case sc ! refViewNr s of None \<Rightarrow> False | Some v \<Rightarrow> camera_valid v)
        then None else Some ''Invalid master view''),
      DMRecon_start = (\<lambda>sc s.
        if refViewNr s \<in> set failing then (Some ''reconstruction failed'', sc)
        else (None, sc[refViewNr s :=
                map_option (\<lambda>v. v\<lparr>embeddings := (''depth-L'' @ show_int (scale s)) # embeddings v\<rparr>)
                  (sc ! refViewNr s)])),
      save_mve_file = (\<lambda>sc i. if i \<in> set unsavable then Some ''cannot save view'' else None),
      save_views = (\<lambda>sc. None)\<rparr>"

definition example_settings :: Settings where
  "example_settings =
     \<lparr>refViewNr = 0, scale = 0, quiet = False, writePlyFile = False, plyPath = [], logPath = []\<rparr>"

text \<open>Options with the initial values of lines 80 to 92, a master view, a job list
  and a progress style.\<close>

definition example_options :: "int \<Rightarrow> int list \<Rightarrow> ProgressStyle \<Rightarrow> Options" where
  "example_options master ids style =
     \<lparr>basePath = ''scene'', writeply = False, plyDest = ''/recon'', logDest = ''/log'',
      master_id = master, force_recon = False, progress_style = style,
      mySettings = example_settings, listIDs = ids\<rparr>"

definition five_views :: Scene where
  "five_views = [Some good_view, Some good_view, Some good_view, Some good_view, Some good_view]"

definition mixed_views :: Scene where
  "mixed_views = [Some good_view, Some bad_view, Some (good_view\<lparr>embeddings := [''depth-L0'']\<rparr>)]"

definition eight_views :: Scene where
  "eight_views = [Some good_view, Some good_view, Some good_view, Some good_view,
                  Some good_view, Some good_view, Some good_view, Some bad_view]"


definition full_disc_env :: "Scene \<Rightarrow> Env" where
  "full_disc_env views = (stub_env views [] [])\<lparr>save_views := (\<lambda>sc. Some ''disc full'')\<rparr>"

section \<open>Basic facts\<close>

lemma status_writes_append: "status_writes (xs @ ys) = status_writes xs @ status_writes ys"
  by (induction xs rule: status_writes.induct) simp_all

lemma emit_simps:
  "scene (emit e st) = scene st"
  "registry (emit e st) = registry st"
  "trace (emit e st) = trace st @ [e]"
  by (simp_all add: emit_def)

lemma setStatus_simps:
  "scene (setStatus v s st) = scene st"
  "registry (setStatus v s st) = (registry st)(v \<mapsto> s)"
  "trace (setStatus v s st) = trace st @ [SetStatus v s]"
  by (simp_all add: setStatus_def emit_def)

lemmas printer_simps = emit_simps setStatus_simps ProgressHandle_acquire_def
  ProgressHandle_release_def setRecon_def setDone_def

lemmas stub_simps = stub_env_def example_settings_def example_options_def good_view_def
  bad_view_def initial_state_def five_views_def mixed_views_def eight_views_def

lemmas eval_simps = stub_simps main_def startup_def run_batch_def run_single_def finish_def
  select_ids_def mvs_settings_def job_def dispatch_def reconstruct_def printer_simps
  addRefView_def to_size_t_def to_int_def show_int_def show_nat.simps digit_char_def
  has_embedding_def job_loop.simps fill_ids.simps Let_def new_events_def

subsection \<open>reconstruct\<close>

lemma reconstruct_thrown:
  "fst (reconstruct env settings st) =
     (case DMRecon_ctor env (scene st) settings of
        Some err \<Rightarrow> Some err
      | None \<Rightarrow> fst (DMRecon_start env (scene st) settings))"
  by (simp add: Let_def reconstruct_def printer_simps split: option.splits prod.splits)

lemma reconstruct_registry:
  "registry (snd (reconstruct env settings st)) =
     (registry st)(refViewNr settings \<mapsto>
        (if fst (reconstruct env settings st) = None then Done else Failed))"
  by (simp add: Let_def reconstruct_def printer_simps split: option.splits prod.splits)

lemma reconstruct_trace:
  "trace (snd (reconstruct env settings st)) =
     trace st @ [SetStatus (refViewNr settings) Running, DMReconCtor (refViewNr settings)] @
     (if DMRecon_ctor env (scene st) settings = None then [DMReconStart (refViewNr settings)] else []) @
     [SetStatus (refViewNr settings) (if fst (reconstruct env settings st) = None then Done else Failed)]"
  by (simp add: Let_def reconstruct_def printer_simps split: option.splits prod.splits)

subsection \<open>dispatch\<close>

lemma dispatch_eq:
  "dispatch env s view_id st =
     (let r = reconstruct env (s\<lparr>refViewNr := view_id\<rparr>) st
      in case fst r of
           Some err \<Rightarrow> emit (Cerr err) (snd r)
         | None \<Rightarrow>
             (case save_mve_file env (scene (snd r)) view_id of
                Some err \<Rightarrow> emit (Cerr err) (emit (SaveMveFile view_id) (snd r))
              | None \<Rightarrow> emit (SaveMveFile view_id) (snd r)))"
  by (simp add: dispatch_def Let_def emit_simps split: prod.splits option.splits)

lemma dispatch_trace:
  "trace (dispatch env s view_id st) =
     trace (snd (reconstruct env (s\<lparr>refViewNr := view_id\<rparr>) st)) @
     (case fst (reconstruct env (s\<lparr>refViewNr := view_id\<rparr>) st) of
        Some err \<Rightarrow> [Cerr err]
      | None \<Rightarrow>
          SaveMveFile view_id #
          (case save_mve_file env (scene (snd (reconstruct env (s\<lparr>refViewNr := view_id\<rparr>) st))) view_id of
             Some err \<Rightarrow> [Cerr err]
           | None \<Rightarrow> []))"
  by (simp add: dispatch_eq Let_def emit_simps split: option.splits)

lemma dispatch_starts:
  "take 2 (new_events st (dispatch env s view_id st)) = [SetStatus view_id Running, DMReconCtor view_id]"
  by (simp add: new_events_def dispatch_trace reconstruct_trace)

lemma dispatch_registry:
  "registry (dispatch env s view_id st) =
     (registry st)(view_id \<mapsto>
        (if fst (reconstruct env (s\<lparr>refViewNr := view_id\<rparr>) st) = None then Done else Failed))"
  by (simp add: dispatch_eq Let_def emit_simps reconstruct_registry split: option.splits)

subsection \<open>The job list\<close>

lemma fill_ids_eq: "fill_ids i n ids = ids @ map to_int [i..<n]"
proof (induction i n ids rule: fill_ids.induct)
  case (1 i n ids)
  show ?case
  proof (cases "i < n")
    case True
    with "1" show ?thesis
      by (subst fill_ids.simps) (simp add: upt_conv_Cons)
  next
    case False
    then show ?thesis by (subst fill_ids.simps) simp
  qed
qed

lemma to_int_small: "k < 2 ^ 31 \<Longrightarrow> to_int k = int k"
  by (simp add: to_int_def)

lemma to_size_t_nat: "to_size_t (int k) = k mod 2 ^ 64"
  by (simp add: to_size_t_def nat_mod_distrib)

lemma to_size_t_small: "k < 2 ^ 31 \<Longrightarrow> to_size_t (int k) = k"
  by (simp add: to_size_t_nat)

lemma map_to_int_upt: "n \<le> 2 ^ 31 \<Longrightarrow> map to_int [0..<n] = map int [0..<n]"
  by (rule map_cong) (simp_all add: to_int_small)

lemma map_to_size_t_upt:
  assumes "n \<le> 2 ^ 31"
  shows "map (to_size_t \<circ> int) [0..<n] = [0..<n]"
  using assms by (intro map_idI) (simp add: to_size_t_small)

subsection \<open>The loop and the branches of main\<close>

lemma job_loop_foldl:
  "job_loop env force s name ids i st =
     foldl (\<lambda>st x. job env force s name x st) st (drop i ids)"
proof (induction env force s name ids i st rule: job_loop.induct)
  case (1 env force s name ids i st)
  show ?case
  proof (cases "i < length ids")
    case True
    then have "drop i ids = ids ! i # drop (Suc i) ids"
      by (simp add: Cons_nth_drop_Suc)
    with True "1" show ?thesis
      by (subst job_loop.simps) simp
  next
    case False
    then show ?thesis by (subst job_loop.simps) simp
  qed
qed

lemma run_batch_foldl:
  "run_batch env opts s st =
     foldl (\<lambda>st x. job env (force_recon opts) s (''depth-L'' @ show_int (scale s)) x st)
       (addRefViews (fst (select_ids (scene st) (listIDs opts)))
          (emit (snd (select_ids (scene st) (listIDs opts))) st))
       (fst (select_ids (scene st) (listIDs opts)))"
  by (simp add: run_batch_def Let_def job_loop_foldl split: prod.splits)

lemma addRefViews_registry:
  "registry (addRefViews ids st) k =
     (if k \<in> to_size_t ` set ids then Some Pending else registry st k)"
  by (induction ids arbitrary: st) (auto simp add: addRefView_def setStatus_simps)

lemma addRefViews_scene: "scene (addRefViews ids st) = scene st"
  by (induction ids arbitrary: st) (simp_all add: addRefView_def setStatus_simps)

lemma job_registry_mono: "registry st k \<noteq> None \<Longrightarrow> registry (job env force s name x st) k \<noteq> None"
  by (simp add: job_def Let_def emit_simps dispatch_registry split: option.splits)

lemma foldl_job_registry_mono:
  "registry st k \<noteq> None \<Longrightarrow>
     registry (foldl (\<lambda>st x. job env force s name x st) st ids) k \<noteq> None"
proof (induction ids arbitrary: st)
  case Nil
  then show ?case by simp
next
  case (Cons a ids)
  from Cons.prems have "registry (job env force s name a st) k \<noteq> None"
    by (rule job_registry_mono)
  then have "registry (foldl (\<lambda>st x. job env force s name x st) (job env force s name a st) ids) k \<noteq> None"
    by (rule Cons.IH)
  then show ?case by simp
qed

lemma finish_simps:
  "fst (finish env opts st) =
     (case save_views env (scene st) of Some err \<Rightarrow> Uncaught err | None \<Rightarrow> Returned 0)"
  "scene (snd (finish env opts st)) = scene st"
  "registry (snd (finish env opts st)) = registry st"
  by (simp_all add: finish_def Let_def emit_simps split: option.splits)

lemma main_batch:
  "load_scene env (basePath opts) = Inr views \<Longrightarrow> master_id opts < 0 \<Longrightarrow>
     main env opts = finish env opts (run_batch env opts (mvs_settings opts) (startup opts views))"
  by (simp add: main_def Let_def)

lemma main_single:
  "load_scene env (basePath opts) = Inr views \<Longrightarrow> 0 \<le> master_id opts \<Longrightarrow>
     main env opts = finish env opts (run_single env opts (mvs_settings opts) (startup opts views))"
  by (simp add: main_def Let_def)

lemma startup_scene: "scene (startup opts views) = views"
  by (simp add: startup_def Let_def emit_simps initial_state_def)

lemma job_rejected:
  assumes "length (scene st) \<le> to_size_t x \<or> scene st ! to_size_t x = None
           \<or> (\<exists>v. scene st ! to_size_t x = Some v
                  \<and> (\<not> camera_valid v \<or> (\<not> force \<and> has_embedding v name)))"
  shows "registry (job env force s name x st) = registry st"
    and "status_writes (new_events st (job env force s name x st)) = []"
  using assms by (auto simp add: job_def Let_def emit_simps new_events_def split: option.splits)

lemma run_single_eq:
  "run_single env opts s st =
     (let st2 = addRefView (master_id opts)
                  (emit (Cout (''Reconstructing view with ID '' @ show_int (master_id opts))) st);
          r = reconstruct env (s\<lparr>refViewNr := to_size_t (master_id opts)\<rparr>) st2
      in case fst r of Some err \<Rightarrow> emit (Cerr err) (snd r) | None \<Rightarrow> snd r)"
  by (simp add: run_single_def Let_def split: prod.splits option.splits)

lemma run_single_trace:
  "take 4 (new_events st (run_single env opts s st)) =
     [Cout (''Reconstructing view with ID '' @ show_int (master_id opts)),
      SetStatus (to_size_t (master_id opts)) Pending,
      SetStatus (to_size_t (master_id opts)) Running,
      DMReconCtor (to_size_t (master_id opts))]"
  by (simp add: run_single_eq Let_def new_events_def emit_simps reconstruct_trace
      addRefView_def setStatus_simps split: option.splits)

lemma run_single_registry:
  "registry (run_single env opts s st) (to_size_t (master_id opts)) = Some Done
   \<or> registry (run_single env opts s st) (to_size_t (master_id opts)) = Some Failed"
  by (simp add: run_single_eq Let_def emit_simps reconstruct_registry split: option.splits)

lemma addRefViews_trace:
  "trace (addRefViews ids st) = trace st @ map (\<lambda>x. SetStatus (to_size_t x) Pending) ids"
  by (induction ids arbitrary: st) (simp_all add: addRefView_def setStatus_simps)

lemma job_trace_extends: "\<exists>es. trace (job env force s name x st) = trace st @ es"
  by (simp add: job_def Let_def emit_simps dispatch_trace reconstruct_trace split: option.splits)

lemma foldl_job_trace_extends:
  "\<exists>es. trace (foldl (\<lambda>st x. job env force s name x st) st ids) = trace st @ es"
proof (induction ids arbitrary: st)
  case Nil
  then show ?case by simp
next
  case (Cons a ids)
  obtain es1 where e1: "trace (job env force s name a st) = trace st @ es1"
    using job_trace_extends by blast
  obtain es2 where "trace (foldl (\<lambda>st x. job env force s name x st) (job env force s name a st) ids) =
      trace (job env force s name a st) @ es2"
    using Cons.IH by blast
  with e1 show ?case by simp
qed

lemma run_batch_starts:
  "take (Suc (length (fst (select_ids (scene st) (listIDs opts)))))
       (new_events st (run_batch env opts s st)) =
     snd (select_ids (scene st) (listIDs opts)) #
       map (\<lambda>x. SetStatus (to_size_t x) Pending) (fst (select_ids (scene st) (listIDs opts)))"
proof -
  let ?ids = "fst (select_ids (scene st) (listIDs opts))"
  let ?line = "snd (select_ids (scene st) (listIDs opts))"
  obtain es where "trace (run_batch env opts s st) =
      trace (addRefViews ?ids (emit ?line st)) @ es"
    unfolding run_batch_foldl using foldl_job_trace_extends by blast
  then have "new_events st (run_batch env opts s st) =
      (?line # map (\<lambda>x. SetStatus (to_size_t x) Pending) ?ids) @ es"
    by (simp add: new_events_def addRefViews_trace emit_simps)
  then show ?thesis by simp
qed

lemma run_single_events:
  "new_events st (run_single env opts s st) =
     [Cout (''Reconstructing view with ID '' @ show_int (master_id opts)),
      SetStatus (to_size_t (master_id opts)) Pending,
      SetStatus (to_size_t (master_id opts)) Running,
      DMReconCtor (to_size_t (master_id opts))] @
     (if DMRecon_ctor env (scene st) (s\<lparr>refViewNr := to_size_t (master_id opts)\<rparr>) = None
      then [DMReconStart (to_size_t (master_id opts))] else []) @
     [SetStatus (to_size_t (master_id opts))
        (if fst (reconstruct env (s\<lparr>refViewNr := to_size_t (master_id opts)\<rparr>) st) = None
         then Done else Failed)] @
     (case fst (reconstruct env (s\<lparr>refViewNr := to_size_t (master_id opts)\<rparr>) st) of
        Some err \<Rightarrow> [Cerr err]
      | None \<Rightarrow> [])"
  by (simp add: run_single_eq Let_def new_events_def emit_simps reconstruct_trace
      reconstruct_thrown addRefView_def setStatus_simps split: option.splits)

lemma run_single_final_status:
  "registry (run_single env opts s st) (to_size_t (master_id opts)) =
     Some (if fst (reconstruct env (s\<lparr>refViewNr := to_size_t (master_id opts)\<rparr>) st) = None
           then Done else Failed)"
  by (simp add: run_single_eq Let_def emit_simps reconstruct_registry reconstruct_thrown
      addRefView_def setStatus_simps split: option.splits)

lemma finish_trace:
  "trace (snd (finish env opts st)) =
     trace st @ (if progress_style opts = PROGRESS_FANCY then [Stop, PtJoin] else []) @
     [Cout ''Saving views back to disc...'', SaveViews]"
  by (simp add: finish_def Let_def emit_simps split: option.splits)

lemma run_single_no_save: "SaveMveFile v \<notin> set (new_events st (run_single env opts s st))"
  by (simp add: run_single_events split: option.splits)

subsection \<open>The display thread and the quiet flag\<close>




























section \<open>Guaranteed finalization\<close>

text \<open>
  C1. Whatever way \<open>reconstruct\<close> is left, the status of its view was written
  exactly twice: \<open>Running\<close> when the handle was acquired, and one final status when
  it was released. When an exception leaves the function (the success signal was
  never given) the final status is \<open>Failed\<close>; on a normal return it is \<open>Done\<close>. An
  exception leaves the function exactly when the constructor of the reconstruction
  or its \<open>start\<close> throws.
\<close>

theorem reconstruct_guaranteed_finalization:
  assumes "reconstruct env settings st = (thrown, st')"
  shows "(thrown \<noteq> None \<longrightarrow>
            registry st' (refViewNr settings) = Some Failed
          \<and> status_writes (new_events st st') =
              [(refViewNr settings, Running), (refViewNr settings, Failed)])
       \<and> (thrown = None \<longrightarrow>
            registry st' (refViewNr settings) = Some Done
          \<and> status_writes (new_events st st') =
              [(refViewNr settings, Running), (refViewNr settings, Done)])
       \<and> thrown = (case DMRecon_ctor env (scene st) settings of
                     Some err \<Rightarrow> Some err
                   | None \<Rightarrow> fst (DMRecon_start env (scene st) settings))"
proof -
  have t: "thrown = fst (reconstruct env settings st)"
    and s: "st' = snd (reconstruct env settings st)"
    using assms by simp_all
  have r: "registry st' (refViewNr settings) = Some (if thrown = None then Done else Failed)"
    unfolding s t by (simp add: reconstruct_registry)
  have w: "status_writes (new_events st st') =
      [(refViewNr settings, Running), (refViewNr settings, if thrown = None then Done else Failed)]"
    unfolding s t new_events_def by (simp add: reconstruct_trace status_writes_append)
  have c: "thrown = (case DMRecon_ctor env (scene st) settings of
                     Some err \<Rightarrow> Some err
                   | None \<Rightarrow> fst (DMRecon_start env (scene st) settings))"
    unfolding t by (rule reconstruct_thrown)
  from r w c show ?thesis by simp
qed

text \<open>A reconstruction whose \<open>start\<close> throws: the view ends \<open>Failed\<close>.\<close>

theorem reconstruct_guaranteed_finalization_witness:
  "fst (reconstruct (stub_env [Some good_view] [0] []) example_settings
       (initial_state\<lparr>scene := [Some good_view]\<rparr>)) = Some ''reconstruction failed''
   \<and> registry (snd (reconstruct (stub_env [Some good_view] [0] []) example_settings
       (initial_state\<lparr>scene := [Some good_view]\<rparr>))) 0 = Some Failed
   \<and> status_writes (new_events (initial_state\<lparr>scene := [Some good_view]\<rparr>)
       (snd (reconstruct (stub_env [Some good_view] [0] []) example_settings
          (initial_state\<lparr>scene := [Some good_view]\<rparr>)))) = [(0, Running), (0, Failed)]"
  using reconstruct_guaranteed_finalization
    [of "stub_env [Some good_view] [0] []" example_settings
        "initial_state\<lparr>scene := [Some good_view]\<rparr>"
        "fst (reconstruct (stub_env [Some good_view] [0] []) example_settings
           (initial_state\<lparr>scene := [Some good_view]\<rparr>))"
        "snd (reconstruct (stub_env [Some good_view] [0] []) example_settings
           (initial_state\<lparr>scene := [Some good_view]\<rparr>))"]
  by (simp add: stub_simps)

section \<open>The job list\<close>

text \<open>
  C7. With an empty list of identifiers the branch for a list of views works on
  every view of the scene: the job list becomes 0, 1, ... up to the number of views
  minus one, in this order, the loop reads these same numbers back as view
  identifiers, and the batch is the loop over them. The indices are stored as
  \<^verbatim>\<open>int\<close>, so the statement is for a scene of at most \<open>2 ^ 31\<close> views.
\<close>

theorem empty_list_means_all_views:
  assumes "listIDs opts = []" and "length (scene st) \<le> 2 ^ 31"
  shows "fst (select_ids (scene st) (listIDs opts)) = map int [0..<length (scene st)]
       \<and> map to_size_t (fst (select_ids (scene st) (listIDs opts))) = [0..<length (scene st)]
       \<and> run_batch env opts s st =
           job_loop env (force_recon opts) s (''depth-L'' @ show_int (scale s))
             (map int [0..<length (scene st)]) 0
             (addRefViews (map int [0..<length (scene st)])
                (emit (Cout ''Reconstructing all views...'') st))"
proof -
  have ids: "fst (select_ids (scene st) (listIDs opts)) = map int [0..<length (scene st)]"
    using assms by (simp add: select_ids_def fill_ids_eq map_to_int_upt)
  have line: "snd (select_ids (scene st) (listIDs opts)) = Cout ''Reconstructing all views...''"
    using assms by (simp add: select_ids_def)
  have run: "run_batch env opts s st =
      job_loop env (force_recon opts) s (''depth-L'' @ show_int (scale s))
        (fst (select_ids (scene st) (listIDs opts))) 0
        (addRefViews (fst (select_ids (scene st) (listIDs opts)))
           (emit (snd (select_ids (scene st) (listIDs opts))) st))"
    by (simp add: run_batch_def Let_def split: prod.splits)
  show ?thesis
    using assms(2) unfolding run ids line by (simp add: map_to_size_t_upt)
qed

theorem empty_list_means_all_views_witness:
  "fst (select_ids [Some good_view, None, Some bad_view] []) = [0, 1, 2]"
  using empty_list_means_all_views
    [where opts = "example_options (- 1) [] PROGRESS_FANCY"
       and st = "initial_state\<lparr>scene := [Some good_view, None, Some bad_view]\<rparr>"
       and env = "stub_env [] [] []" and s = example_settings]
  by (simp add: example_options_def initial_state_def upt_rec)

section \<open>NULL views\<close>

text \<open>
  C10. A listed identifier that is in range and whose entry in the view list is NULL
  is skipped: the iteration leaves the state as it was, so nothing is printed and no
  reconstruction is started. This is what the iteration does for a view with an
  invalid camera at the same place. In \<open>job\<close> the camera is asked for only in the
  branch of a view that is not NULL.
\<close>

theorem null_view_skipped:
  assumes "to_size_t x < length (scene st)" and "scene st ! to_size_t x = None"
  shows "job env force s name x st = st
       \<and> new_events st (job env force s name x st) = []
       \<and> (\<not> camera_valid v \<longrightarrow>
            job env force s name x (st\<lparr>scene := (scene st)[to_size_t x := Some v]\<rparr>) =
              st\<lparr>scene := (scene st)[to_size_t x := Some v]\<rparr>)"
  using assms by (simp add: job_def Let_def new_events_def)

theorem null_view_skipped_witness:
  "job (stub_env [None] [] []) True example_settings ''depth-L0'' 0
       (initial_state\<lparr>scene := [None]\<rparr>) = initial_state\<lparr>scene := [None]\<rparr>
   \<and> job (stub_env [None] [] []) True example_settings ''depth-L0'' 0
       (initial_state\<lparr>scene := [Some bad_view]\<rparr>) = initial_state\<lparr>scene := [Some bad_view]\<rparr>"
  using null_view_skipped [where x = 0 and st = "initial_state\<lparr>scene := [None]\<rparr>"
      and env = "stub_env [None] [] []" and force = True and s = example_settings
      and name = "''depth-L0''" and v = bad_view]
  by (simp add: to_size_t_def initial_state_def bad_view_def)

section \<open>Failure of one job\<close>



section \<open>Admission of a job\<close>

text \<open>A view with an invalid camera is skipped without any output: the trace of the
  whole run holds no line for it. (C3 as stated asks for a log message.)\<close>

theorem invalid_camera_skipped_without_log:
  "trace (snd (main (stub_env [Some bad_view] [] []) (example_options (- 1) [0] PROGRESS_FANCY))) =
     [SetBasePath ''scene'', SetNumViews 1, PtCreate,
      Cout ''Reconstructing views from list...'', SetStatus 0 Pending,
      Stop, PtJoin, Cout ''Saving views back to disc...'', SaveViews]"
  by (simp add: eval_simps)

text \<open>
  C3, amended. The tests of one iteration, in order: an identifier that is not below
  the number of views is skipped with the line \<^verbatim>\<open>ID: ... is too large! Skipping...\<close>;
  a NULL view and a view with an invalid camera are skipped silently; a view that
  has the depth map of the scale is skipped silently unless re-reconstruction is
  forced; every other job, and no job that one of the tests rejects, is dispatched,
  which begins by acquiring the handle and constructing the reconstruction.
\<close>

theorem job_admission_rules:
  "(length (scene st) \<le> to_size_t x \<longrightarrow>
      job env force s name x st =
        emit (Cout (''ID: '' @ show_nat (to_size_t x) @ '' is too large! Skipping...'')) st)
   \<and> (to_size_t x < length (scene st) \<and> scene st ! to_size_t x = None \<longrightarrow>
        job env force s name x st = st)
   \<and> (to_size_t x < length (scene st) \<and> scene st ! to_size_t x = Some v \<and> \<not> camera_valid v \<longrightarrow>
        job env force s name x st = st)
   \<and> (to_size_t x < length (scene st) \<and> scene st ! to_size_t x = Some v \<and> camera_valid v
        \<and> \<not> force \<and> has_embedding v name \<longrightarrow>
        job env force s name x st = st)
   \<and> (to_size_t x < length (scene st) \<and> scene st ! to_size_t x = Some v \<and> camera_valid v
        \<and> (force \<or> \<not> has_embedding v name) \<longrightarrow>
        job env force s name x st = dispatch env s (to_size_t x) st
        \<and> take 2 (new_events st (job env force s name x st)) =
            [SetStatus (to_size_t x) Running, DMReconCtor (to_size_t x)])"
  by (auto simp add: job_def Let_def dispatch_starts)

theorem job_admission_rules_witness:
  "job (stub_env [] [] []) False example_settings ''depth-L0'' 5
      (initial_state\<lparr>scene := [Some good_view]\<rparr>) =
     emit (Cout ''ID: 5 is too large! Skipping...'') (initial_state\<lparr>scene := [Some good_view]\<rparr>)
   \<and> job (stub_env [] [] []) False example_settings ''depth-L0'' 0
      (initial_state\<lparr>scene := [None]\<rparr>) = initial_state\<lparr>scene := [None]\<rparr>
   \<and> job (stub_env [] [] []) False example_settings ''depth-L0'' 0
      (initial_state\<lparr>scene := [Some bad_view]\<rparr>) = initial_state\<lparr>scene := [Some bad_view]\<rparr>
   \<and> job (stub_env [] [] []) False example_settings ''depth-L0'' 0
      (initial_state\<lparr>scene := [Some (good_view\<lparr>embeddings := [''depth-L0'']\<rparr>)]\<rparr>) =
        initial_state\<lparr>scene := [Some (good_view\<lparr>embeddings := [''depth-L0'']\<rparr>)]\<rparr>
   \<and> job (stub_env [] [] []) False example_settings ''depth-L0'' 0
      (initial_state\<lparr>scene := [Some good_view]\<rparr>) =
        dispatch (stub_env [] [] []) example_settings 0 (initial_state\<lparr>scene := [Some good_view]\<rparr>)"
  using
    job_admission_rules [where x = 5 and st = "initial_state\<lparr>scene := [Some good_view]\<rparr>"
      and env = "stub_env [] [] []" and force = False and s = example_settings
      and name = "''depth-L0''" and v = good_view]
    job_admission_rules [where x = 0 and st = "initial_state\<lparr>scene := [None]\<rparr>"
      and env = "stub_env [] [] []" and force = False and s = example_settings
      and name = "''depth-L0''" and v = good_view]
    job_admission_rules [where x = 0 and st = "initial_state\<lparr>scene := [Some bad_view]\<rparr>"
      and env = "stub_env [] [] []" and force = False and s = example_settings
      and name = "''depth-L0''" and v = bad_view]
    job_admission_rules [where x = 0
      and st = "initial_state\<lparr>scene := [Some (good_view\<lparr>embeddings := [''depth-L0'']\<rparr>)]\<rparr>"
      and env = "stub_env [] [] []" and force = False and s = example_settings
      and name = "''depth-L0''" and v = "good_view\<lparr>embeddings := [''depth-L0'']\<rparr>"]
    job_admission_rules [where x = 0 and st = "initial_state\<lparr>scene := [Some good_view]\<rparr>"
      and env = "stub_env [] [] []" and force = False and s = example_settings
      and name = "''depth-L0''" and v = good_view]
  by (simp add: to_size_t_def initial_state_def good_view_def bad_view_def has_embedding_def
      show_nat.simps digit_char_def)

section \<open>Registration\<close>

text \<open>A job that the camera test rejects is in the registry after the run, as
  \<open>Pending\<close>, and the registration is the only status write of the run. (C4 as
  stated says that a rejected job never appears there.)\<close>

theorem rejected_job_is_registered:
  "registry (snd (main (stub_env [Some bad_view] [] [])
      (example_options (- 1) [0] PROGRESS_FANCY))) 0 = Some Pending
   \<and> status_writes (trace (snd (main (stub_env [Some bad_view] [] [])
      (example_options (- 1) [0] PROGRESS_FANCY)))) = [(0, Pending)]"
  by (simp add: eval_simps)

text \<open>
  C4, amended. \<^verbatim>\<open>addRefViews\<close> is called with the whole job list before the loop:
  the batch is the fold of the jobs over the state that the registration leaves, and
  the first events of the batch, before the event of any job, are the line of line
  207 or 210 and one \<open>Pending\<close> write for every element of the list, in the order of
  the list. So every listed identifier is registered before any admission test, and
  every listed identifier is still in the registry when \<open>main\<close> ends, admitted or
  not. The iteration of a rejected job writes no status and leaves the registry as
  it was.
\<close>

theorem listed_ids_are_registered:
  assumes "load_scene env (basePath opts) = Inr views" and "master_id opts < 0"
  shows "(\<forall>x \<in> set (fst (select_ids views (listIDs opts))).
            registry (snd (main env opts)) (to_size_t x) \<noteq> None)
       \<and> (\<forall>x \<in> set ids. registry (addRefViews ids st) (to_size_t x) = Some Pending)
       \<and> (length (scene st) \<le> to_size_t x \<or> scene st ! to_size_t x = None
            \<or> (\<exists>v. scene st ! to_size_t x = Some v
                   \<and> (\<not> camera_valid v \<or> (\<not> force \<and> has_embedding v name))) \<longrightarrow>
            registry (job env force s name x st) = registry st
            \<and> status_writes (new_events st (job env force s name x st)) = [])
       \<and> main env opts = finish env opts (run_batch env opts (mvs_settings opts) (startup opts views))
       \<and> run_batch env opts s st =
           foldl (\<lambda>st x. job env (force_recon opts) s (''depth-L'' @ show_int (scale s)) x st)
             (addRefViews (fst (select_ids (scene st) (listIDs opts)))
                (emit (snd (select_ids (scene st) (listIDs opts))) st))
             (fst (select_ids (scene st) (listIDs opts)))
       \<and> take (Suc (length (fst (select_ids (scene st) (listIDs opts)))))
            (new_events st (run_batch env opts s st)) =
           snd (select_ids (scene st) (listIDs opts)) #
             map (\<lambda>x. SetStatus (to_size_t x) Pending) (fst (select_ids (scene st) (listIDs opts)))"
proof -
  have m: "main env opts = finish env opts (run_batch env opts (mvs_settings opts) (startup opts views))"
    using assms by (rule main_batch)
  have a: "registry (snd (main env opts)) (to_size_t x) \<noteq> None"
    if "x \<in> set (fst (select_ids views (listIDs opts)))" for x
  proof -
    have "registry (addRefViews (fst (select_ids views (listIDs opts)))
             (emit (snd (select_ids views (listIDs opts))) (startup opts views))) (to_size_t x) \<noteq> None"
      using that by (simp add: addRefViews_registry)
    then show ?thesis
      unfolding m by (simp add: finish_simps run_batch_foldl startup_scene foldl_job_registry_mono)
  qed
  have b: "\<forall>x \<in> set ids. registry (addRefViews ids st) (to_size_t x) = Some Pending"
    by (simp add: addRefViews_registry)
  have c: "length (scene st) \<le> to_size_t x \<or> scene st ! to_size_t x = None
            \<or> (\<exists>v. scene st ! to_size_t x = Some v
                   \<and> (\<not> camera_valid v \<or> (\<not> force \<and> has_embedding v name))) \<longrightarrow>
            registry (job env force s name x st) = registry st
            \<and> status_writes (new_events st (job env force s name x st)) = []"
    using job_rejected [of st x force name env s] by blast
  from a have a': "\<forall>x \<in> set (fst (select_ids views (listIDs opts))).
            registry (snd (main env opts)) (to_size_t x) \<noteq> None"
    by blast
  from a' b c m run_batch_foldl [of env opts s st] run_batch_starts [of st opts env s]
  show ?thesis by (intro conjI)
qed

theorem listed_ids_are_registered_witness:
  "(registry (snd (main (stub_env mixed_views [] []) (example_options (- 1) [] PROGRESS_FANCY))) 0 \<noteq> None
    \<and> registry (snd (main (stub_env mixed_views [] []) (example_options (- 1) [] PROGRESS_FANCY))) 1 \<noteq> None
    \<and> registry (snd (main (stub_env mixed_views [] []) (example_options (- 1) [] PROGRESS_FANCY))) 2 \<noteq> None)
   \<and> registry (job (stub_env mixed_views [] []) False example_settings ''depth-L0'' 1
        (addRefViews [0, 1, 2] (initial_state\<lparr>scene := mixed_views\<rparr>))) 1 = Some Pending
   \<and> take 4 (new_events (initial_state\<lparr>scene := mixed_views\<rparr>)
        (run_batch (stub_env mixed_views [] []) (example_options (- 1) [] PROGRESS_FANCY)
           example_settings (initial_state\<lparr>scene := mixed_views\<rparr>))) =
       [Cout ''Reconstructing all views...'', SetStatus 0 Pending, SetStatus 1 Pending,
        SetStatus 2 Pending]"
proof -
  have l: "load_scene (stub_env mixed_views [] [])
      (basePath (example_options (- 1) [] PROGRESS_FANCY)) = Inr mixed_views"
    by (simp add: stub_simps)
  have b: "master_id (example_options (- 1) [] PROGRESS_FANCY) < 0"
    by (simp add: stub_simps)
  have i: "fst (select_ids mixed_views (listIDs (example_options (- 1) [] PROGRESS_FANCY))) = [0, 1, 2]"
    by (simp add: eval_simps mixed_views_def)
  have i': "select_ids (scene (initial_state\<lparr>scene := mixed_views\<rparr>))
      (listIDs (example_options (- 1) [] PROGRESS_FANCY)) = ([0, 1, 2], Cout ''Reconstructing all views...'')"
    by (simp add: eval_simps mixed_views_def)
  note t = listed_ids_are_registered [OF l b, where ids = "[0, 1, 2]"
      and st = "addRefViews [0, 1, 2] (initial_state\<lparr>scene := mixed_views\<rparr>)" and x = 1
      and force = False and name = "''depth-L0''" and s = example_settings]
  note u = listed_ids_are_registered [OF l b, where ids = "[0, 1, 2]"
      and st = "initial_state\<lparr>scene := mixed_views\<rparr>" and x = 1
      and force = False and name = "''depth-L0''" and s = example_settings]
  from t [THEN conjunct1]
  have a: "registry (snd (main (stub_env mixed_views [] []) (example_options (- 1) [] PROGRESS_FANCY))) 0 \<noteq> None
    \<and> registry (snd (main (stub_env mixed_views [] []) (example_options (- 1) [] PROGRESS_FANCY))) 1 \<noteq> None
    \<and> registry (snd (main (stub_env mixed_views [] []) (example_options (- 1) [] PROGRESS_FANCY))) 2 \<noteq> None"
    unfolding i by (simp add: to_size_t_def)
  from t [THEN conjunct2, THEN conjunct2, THEN conjunct1]
  have r: "registry (job (stub_env mixed_views [] []) False example_settings ''depth-L0'' 1
        (addRefViews [0, 1, 2] (initial_state\<lparr>scene := mixed_views\<rparr>))) =
      registry (addRefViews [0, 1, 2] (initial_state\<lparr>scene := mixed_views\<rparr>))"
    by (simp add: to_size_t_def addRefView_def setStatus_simps mixed_views_def bad_view_def)
  have p: "registry (job (stub_env mixed_views [] []) False example_settings ''depth-L0'' 1
        (addRefViews [0, 1, 2] (initial_state\<lparr>scene := mixed_views\<rparr>))) 1 = Some Pending"
    unfolding r by (simp add: addRefView_def setStatus_simps to_size_t_def)
  from u [THEN conjunct2, THEN conjunct2, THEN conjunct2, THEN conjunct2, THEN conjunct2]
  have o: "take 4 (new_events (initial_state\<lparr>scene := mixed_views\<rparr>)
        (run_batch (stub_env mixed_views [] []) (example_options (- 1) [] PROGRESS_FANCY)
           example_settings (initial_state\<lparr>scene := mixed_views\<rparr>))) =
       [Cout ''Reconstructing all views...'', SetStatus 0 Pending, SetStatus 1 Pending,
        SetStatus 2 Pending]"
  proof -
    have four: "(4::nat) = Suc (Suc (Suc (Suc 0)))" by simp
    assume "take (Suc (length (fst (select_ids (scene (initial_state\<lparr>scene := mixed_views\<rparr>))
                (listIDs (example_options (- 1) [] PROGRESS_FANCY))))))
         (new_events (initial_state\<lparr>scene := mixed_views\<rparr>)
           (run_batch (stub_env mixed_views [] []) (example_options (- 1) [] PROGRESS_FANCY)
              example_settings (initial_state\<lparr>scene := mixed_views\<rparr>))) =
         snd (select_ids (scene (initial_state\<lparr>scene := mixed_views\<rparr>))
                (listIDs (example_options (- 1) [] PROGRESS_FANCY))) #
         map (\<lambda>x. SetStatus (to_size_t x) Pending)
           (fst (select_ids (scene (initial_state\<lparr>scene := mixed_views\<rparr>))
                (listIDs (example_options (- 1) [] PROGRESS_FANCY))))"
    then show ?thesis
      unfolding i' by (simp add: to_size_t_def four)
  qed
  from a p o show ?thesis by (intro conjI) simp_all
qed

section \<open>A single master view\<close>

text \<open>Master view 7 of eight views has an invalid camera: the view is registered,
  the handle is acquired and the reconstruction is constructed all the same. (C5 as
  stated says that nothing is registered and no reconstruction is attempted.)\<close>

theorem single_mode_reconstructs_invalid_camera:
  "trace (snd (main
      (stub_env eight_views [] [])
      (example_options 7 [] PROGRESS_FANCY))) =
     [SetBasePath ''scene'', SetNumViews 8, PtCreate,
      Cout ''Reconstructing view with ID 7'', SetStatus 7 Pending,
      SetStatus 7 Running, DMReconCtor 7, SetStatus 7 Failed,
      Cerr ''Invalid master view'', Stop, PtJoin,
      Cout ''Saving views back to disc...'', SaveViews]"
  by (simp add: eval_simps)

text \<open>
  C5, amended. With a master view, \<open>main\<close> applies no admission rule: whatever the
  scene holds at the identifier, it prints the line, registers the master view,
  acquires the handle and constructs the reconstruction. When the reconstruction
  throws, the view ends \<open>Failed\<close> and the handler prints the message as the last
  event of the branch; when it returns, the view ends \<open>Done\<close> and nothing more is
  printed. In both cases the run goes on to the end of \<open>main\<close>: the display thread
  is stopped and joined for the fancy style, the views are saved, and the status is
  0 unless \<^verbatim>\<open>save_views\<close> throws.
\<close>

theorem single_mode_has_no_admission_rules:
  assumes "load_scene env (basePath opts) = Inr views" and "0 \<le> master_id opts"
  shows "main env opts = finish env opts (run_single env opts (mvs_settings opts) (startup opts views))
       \<and> take 4 (new_events st (run_single env opts s st)) =
           [Cout (''Reconstructing view with ID '' @ show_int (master_id opts)),
            SetStatus (to_size_t (master_id opts)) Pending,
            SetStatus (to_size_t (master_id opts)) Running,
            DMReconCtor (to_size_t (master_id opts))]
       \<and> (registry (run_single env opts s st) (to_size_t (master_id opts)) = Some Done
          \<or> registry (run_single env opts s st) (to_size_t (master_id opts)) = Some Failed)
       \<and> fst (main env opts) =
           (case save_views env (scene (snd (main env opts))) of
              Some err \<Rightarrow> Uncaught err
            | None \<Rightarrow> Returned 0)
       \<and> (fst (reconstruct env (s\<lparr>refViewNr := to_size_t (master_id opts)\<rparr>) st) = Some err \<longrightarrow>
            new_events st (run_single env opts s st) =
              [Cout (''Reconstructing view with ID '' @ show_int (master_id opts)),
               SetStatus (to_size_t (master_id opts)) Pending,
               SetStatus (to_size_t (master_id opts)) Running,
               DMReconCtor (to_size_t (master_id opts))] @
              (if DMRecon_ctor env (scene st) (s\<lparr>refViewNr := to_size_t (master_id opts)\<rparr>) = None
               then [DMReconStart (to_size_t (master_id opts))] else []) @
              [SetStatus (to_size_t (master_id opts)) Failed, Cerr err]
            \<and> registry (run_single env opts s st) (to_size_t (master_id opts)) = Some Failed)
       \<and> (fst (reconstruct env (s\<lparr>refViewNr := to_size_t (master_id opts)\<rparr>) st) = None \<longrightarrow>
            new_events st (run_single env opts s st) =
              [Cout (''Reconstructing view with ID '' @ show_int (master_id opts)),
               SetStatus (to_size_t (master_id opts)) Pending,
               SetStatus (to_size_t (master_id opts)) Running,
               DMReconCtor (to_size_t (master_id opts)),
               DMReconStart (to_size_t (master_id opts)),
               SetStatus (to_size_t (master_id opts)) Done]
            \<and> registry (run_single env opts s st) (to_size_t (master_id opts)) = Some Done)
       \<and> trace (snd (finish env opts st)) =
           trace st @ (if progress_style opts = PROGRESS_FANCY then [Stop, PtJoin] else []) @
           [Cout ''Saving views back to disc...'', SaveViews]"
proof -
  have m: "main env opts = finish env opts (run_single env opts (mvs_settings opts) (startup opts views))"
    using assms by (rule main_single)
  have e: "fst (main env opts) =
      (case save_views env (scene (snd (main env opts))) of
         Some err \<Rightarrow> Uncaught err
       | None \<Rightarrow> Returned 0)"
    unfolding m by (simp add: finish_simps)
  have f: "fst (reconstruct env (s\<lparr>refViewNr := to_size_t (master_id opts)\<rparr>) st) = Some err \<longrightarrow>
            new_events st (run_single env opts s st) =
              [Cout (''Reconstructing view with ID '' @ show_int (master_id opts)),
               SetStatus (to_size_t (master_id opts)) Pending,
               SetStatus (to_size_t (master_id opts)) Running,
               DMReconCtor (to_size_t (master_id opts))] @
              (if DMRecon_ctor env (scene st) (s\<lparr>refViewNr := to_size_t (master_id opts)\<rparr>) = None
               then [DMReconStart (to_size_t (master_id opts))] else []) @
              [SetStatus (to_size_t (master_id opts)) Failed, Cerr err]
            \<and> registry (run_single env opts s st) (to_size_t (master_id opts)) = Some Failed"
    by (simp add: run_single_events run_single_final_status)
  have d: "fst (reconstruct env (s\<lparr>refViewNr := to_size_t (master_id opts)\<rparr>) st) = None \<longrightarrow>
            new_events st (run_single env opts s st) =
              [Cout (''Reconstructing view with ID '' @ show_int (master_id opts)),
               SetStatus (to_size_t (master_id opts)) Pending,
               SetStatus (to_size_t (master_id opts)) Running,
               DMReconCtor (to_size_t (master_id opts)),
               DMReconStart (to_size_t (master_id opts)),
               SetStatus (to_size_t (master_id opts)) Done]
            \<and> registry (run_single env opts s st) (to_size_t (master_id opts)) = Some Done"
    by (auto simp add: run_single_events run_single_final_status reconstruct_thrown
        split: option.splits)
  from m e f d run_single_trace [of st env opts s] run_single_registry [of env opts s st]
    finish_trace [of env opts st]
  show ?thesis by (intro conjI)
qed

theorem single_mode_has_no_admission_rules_witness:
  "fst (main (stub_env [Some bad_view] [] []) (example_options 0 [] PROGRESS_SILENT)) = Returned 0
   \<and> take 4 (new_events initial_state
        (run_single (stub_env [Some bad_view] [] []) (example_options 0 [] PROGRESS_SILENT)
           example_settings initial_state)) =
       [Cout ''Reconstructing view with ID 0'', SetStatus 0 Pending, SetStatus 0 Running,
        DMReconCtor 0]
   \<and> new_events (initial_state\<lparr>scene := [Some bad_view]\<rparr>)
        (run_single (stub_env [Some bad_view] [] []) (example_options 0 [] PROGRESS_SILENT)
           example_settings (initial_state\<lparr>scene := [Some bad_view]\<rparr>)) =
       [Cout ''Reconstructing view with ID 0'', SetStatus 0 Pending, SetStatus 0 Running,
        DMReconCtor 0, SetStatus 0 Failed, Cerr ''Invalid master view'']
   \<and> new_events (initial_state\<lparr>scene := [Some good_view]\<rparr>)
        (run_single (stub_env [Some good_view] [] []) (example_options 0 [] PROGRESS_SILENT)
           example_settings (initial_state\<lparr>scene := [Some good_view]\<rparr>)) =
       [Cout ''Reconstructing view with ID 0'', SetStatus 0 Pending, SetStatus 0 Running,
        DMReconCtor 0, DMReconStart 0, SetStatus 0 Done]"
proof -
  have l: "load_scene (stub_env [Some bad_view] [] [])
      (basePath (example_options 0 [] PROGRESS_SILENT)) = Inr [Some bad_view]"
    by (simp add: stub_simps)
  have l': "load_scene (stub_env [Some good_view] [] [])
      (basePath (example_options 0 [] PROGRESS_SILENT)) = Inr [Some good_view]"
    by (simp add: stub_simps)
  have b: "0 \<le> master_id (example_options 0 [] PROGRESS_SILENT)"
    by (simp add: stub_simps)
  have s: "save_views (stub_env [Some bad_view] [] []) sc = None" for sc
    by (simp add: stub_simps)
  note t = single_mode_has_no_admission_rules [OF l b, where s = example_settings
      and st = initial_state and err = "''Invalid master view''"]
  note u = single_mode_has_no_admission_rules [OF l b, where s = example_settings
      and st = "initial_state\<lparr>scene := [Some bad_view]\<rparr>" and err = "''Invalid master view''"]
  note v = single_mode_has_no_admission_rules [OF l' b, where s = example_settings
      and st = "initial_state\<lparr>scene := [Some good_view]\<rparr>" and err = "''Invalid master view''"]
  from t [THEN conjunct2, THEN conjunct2, THEN conjunct2, THEN conjunct1]
  have e: "fst (main (stub_env [Some bad_view] [] []) (example_options 0 [] PROGRESS_SILENT)) = Returned 0"
    by (simp add: s)
  from t [THEN conjunct2, THEN conjunct1]
  have n: "take 4 (new_events initial_state
        (run_single (stub_env [Some bad_view] [] []) (example_options 0 [] PROGRESS_SILENT)
           example_settings initial_state)) =
       [Cout ''Reconstructing view with ID 0'', SetStatus 0 Pending, SetStatus 0 Running,
        DMReconCtor 0]"
    by (simp add: example_options_def show_int_def show_nat.simps digit_char_def to_size_t_def)
  have c: "fst (reconstruct (stub_env [Some bad_view] [] [])
        (example_settings\<lparr>refViewNr := to_size_t (master_id (example_options 0 [] PROGRESS_SILENT))\<rparr>)
        (initial_state\<lparr>scene := [Some bad_view]\<rparr>)) = Some ''Invalid master view''"
    by (simp add: reconstruct_thrown stub_simps to_size_t_def)
  from u [THEN conjunct2, THEN conjunct2, THEN conjunct2, THEN conjunct2, THEN conjunct1,
      THEN mp, OF c, THEN conjunct1]
  have x: "new_events (initial_state\<lparr>scene := [Some bad_view]\<rparr>)
        (run_single (stub_env [Some bad_view] [] []) (example_options 0 [] PROGRESS_SILENT)
           example_settings (initial_state\<lparr>scene := [Some bad_view]\<rparr>)) =
       [Cout ''Reconstructing view with ID 0'', SetStatus 0 Pending, SetStatus 0 Running,
        DMReconCtor 0, SetStatus 0 Failed, Cerr ''Invalid master view'']"
    by (simp add: stub_simps show_int_def show_nat.simps digit_char_def to_size_t_def)
  have c': "fst (reconstruct (stub_env [Some good_view] [] [])
        (example_settings\<lparr>refViewNr := to_size_t (master_id (example_options 0 [] PROGRESS_SILENT))\<rparr>)
        (initial_state\<lparr>scene := [Some good_view]\<rparr>)) = None"
    by (simp add: reconstruct_thrown stub_simps to_size_t_def)
  from v [THEN conjunct2, THEN conjunct2, THEN conjunct2, THEN conjunct2, THEN conjunct2,
      THEN conjunct1, THEN mp, OF c', THEN conjunct1]
  have y: "new_events (initial_state\<lparr>scene := [Some good_view]\<rparr>)
        (run_single (stub_env [Some good_view] [] []) (example_options 0 [] PROGRESS_SILENT)
           example_settings (initial_state\<lparr>scene := [Some good_view]\<rparr>)) =
       [Cout ''Reconstructing view with ID 0'', SetStatus 0 Pending, SetStatus 0 Running,
        DMReconCtor 0, DMReconStart 0, SetStatus 0 Done]"
    by (simp add: stub_simps show_int_def show_nat.simps digit_char_def to_size_t_def)
  from e n x y show ?thesis by (intro conjI)
qed

section \<open>Saving the view of a finished job\<close>

text \<open>A master view whose reconstruction returns ends \<open>Done\<close>, and no save of that
  view follows: the only save is the final \<^verbatim>\<open>save_views\<close>, and when that throws the
  exception leaves \<open>main\<close> and nothing is printed. (C6 as stated is about every job
  that reaches \<open>Done\<close>.)\<close>

theorem single_master_done_without_save:
  "fst (main (full_disc_env [Some good_view]) (example_options 0 [] PROGRESS_SILENT)) =
     Uncaught ''disc full''
   \<and> registry (snd (main (full_disc_env [Some good_view])
        (example_options 0 [] PROGRESS_SILENT))) 0 = Some Done
   \<and> trace (snd (main (full_disc_env [Some good_view]) (example_options 0 [] PROGRESS_SILENT))) =
       [SetBasePath ''scene'', SetNumViews 1, Cout ''Reconstructing view with ID 0'',
        SetStatus 0 Pending, SetStatus 0 Running, DMReconCtor 0, DMReconStart 0,
        SetStatus 0 Done, Cout ''Saving views back to disc...'', SaveViews]"
  by (simp add: eval_simps full_disc_env_def)

text \<open>
  C6, amended. In the body of a job of the list branch, when the reconstruction
  returns, the view is written \<open>Done\<close> and saved in the same iteration, before the
  next job. When the save throws, its message is printed and the view stays \<open>Done\<close>.
  When the reconstruction throws, the view is \<open>Failed\<close> and no save is attempted.
  Both messages are printed by the one handler, as the last event of the iteration;
  the two failures are told apart by the final status and by the \<open>SaveMveFile\<close>
  event. The branch for a master view makes no save of the view; the end of \<open>main\<close>
  saves all views, and an exception of that save is not caught and not printed.
\<close>

theorem persistence_follows_done:
  "(fst (reconstruct env (s\<lparr>refViewNr := view_id\<rparr>) st) = None \<longrightarrow>
      new_events st (dispatch env s view_id st) =
        [SetStatus view_id Running, DMReconCtor view_id, DMReconStart view_id,
         SetStatus view_id Done, SaveMveFile view_id] @
        (case save_mve_file env (scene (snd (reconstruct env (s\<lparr>refViewNr := view_id\<rparr>) st))) view_id of
           Some err \<Rightarrow> [Cerr err]
         | None \<Rightarrow> [])
      \<and> registry (dispatch env s view_id st) view_id = Some Done)
   \<and> (fst (reconstruct env (s\<lparr>refViewNr := view_id\<rparr>) st) = Some err \<longrightarrow>
        new_events st (dispatch env s view_id st) =
          [SetStatus view_id Running, DMReconCtor view_id] @
          (if DMRecon_ctor env (scene st) (s\<lparr>refViewNr := view_id\<rparr>) = None
           then [DMReconStart view_id] else []) @
          [SetStatus view_id Failed, Cerr err]
        \<and> registry (dispatch env s view_id st) view_id = Some Failed)
   \<and> (fst (reconstruct env (s\<lparr>refViewNr := view_id\<rparr>) st) = None
        \<and> save_mve_file env (scene (snd (reconstruct env (s\<lparr>refViewNr := view_id\<rparr>) st))) view_id =
            Some err
        \<and> fst (reconstruct env_b (s_b\<lparr>refViewNr := view_id\<rparr>) st_b) = Some err_b \<longrightarrow>
        last (new_events st (dispatch env s view_id st)) = Cerr err
        \<and> last (new_events st_b (dispatch env_b s_b view_id st_b)) = Cerr err_b
        \<and> registry (dispatch env s view_id st) view_id = Some Done
        \<and> registry (dispatch env_b s_b view_id st_b) view_id = Some Failed
        \<and> SaveMveFile view_id \<in> set (new_events st (dispatch env s view_id st))
        \<and> SaveMveFile view_id \<notin> set (new_events st_b (dispatch env_b s_b view_id st_b)))
   \<and> SaveMveFile v \<notin> set (new_events st (run_single env opts s st))
   \<and> fst (finish env opts st) =
       (case save_views env (scene st) of Some err \<Rightarrow> Uncaught err | None \<Rightarrow> Returned 0)
   \<and> trace (snd (finish env opts st)) =
       trace st @ (if progress_style opts = PROGRESS_FANCY then [Stop, PtJoin] else []) @
       [Cout ''Saving views back to disc...'', SaveViews]"
proof -
  have a: "fst (reconstruct env (s\<lparr>refViewNr := view_id\<rparr>) st) = None \<longrightarrow>
      new_events st (dispatch env s view_id st) =
        [SetStatus view_id Running, DMReconCtor view_id, DMReconStart view_id,
         SetStatus view_id Done, SaveMveFile view_id] @
        (case save_mve_file env (scene (snd (reconstruct env (s\<lparr>refViewNr := view_id\<rparr>) st))) view_id of
           Some err \<Rightarrow> [Cerr err]
         | None \<Rightarrow> [])
      \<and> registry (dispatch env s view_id st) view_id = Some Done"
    by (auto simp add: new_events_def dispatch_trace reconstruct_trace dispatch_registry
        reconstruct_thrown split: option.splits)
  have b: "fst (reconstruct env' (s'\<lparr>refViewNr := view_id\<rparr>) st') = Some err' \<longrightarrow>
        new_events st' (dispatch env' s' view_id st') =
          [SetStatus view_id Running, DMReconCtor view_id] @
          (if DMRecon_ctor env' (scene st') (s'\<lparr>refViewNr := view_id\<rparr>) = None
           then [DMReconStart view_id] else []) @
          [SetStatus view_id Failed, Cerr err']
        \<and> registry (dispatch env' s' view_id st') view_id = Some Failed" for env' s' st' err'
    by (auto simp add: new_events_def dispatch_trace reconstruct_trace dispatch_registry
        reconstruct_thrown split: option.splits)
  have c: "fst (reconstruct env (s\<lparr>refViewNr := view_id\<rparr>) st) = None
        \<and> save_mve_file env (scene (snd (reconstruct env (s\<lparr>refViewNr := view_id\<rparr>) st))) view_id =
            Some err
        \<and> fst (reconstruct env_b (s_b\<lparr>refViewNr := view_id\<rparr>) st_b) = Some err_b \<longrightarrow>
        last (new_events st (dispatch env s view_id st)) = Cerr err
        \<and> last (new_events st_b (dispatch env_b s_b view_id st_b)) = Cerr err_b
        \<and> registry (dispatch env s view_id st) view_id = Some Done
        \<and> registry (dispatch env_b s_b view_id st_b) view_id = Some Failed
        \<and> SaveMveFile view_id \<in> set (new_events st (dispatch env s view_id st))
        \<and> SaveMveFile view_id \<notin> set (new_events st_b (dispatch env_b s_b view_id st_b))"
    using a b [of env_b s_b st_b err_b] by simp
  from a b [of env s st err] c run_single_no_save [of v st env opts s]
    finish_simps(1) [of env opts st] finish_trace [of env opts st]
  show ?thesis by (intro conjI)
qed

theorem persistence_follows_done_witness:
  "new_events (initial_state\<lparr>scene := [Some good_view]\<rparr>)
     (dispatch (stub_env [] [] [0]) example_settings 0 (initial_state\<lparr>scene := [Some good_view]\<rparr>)) =
       [SetStatus 0 Running, DMReconCtor 0, DMReconStart 0, SetStatus 0 Done, SaveMveFile 0,
        Cerr ''cannot save view'']
   \<and> registry (dispatch (stub_env [] [] [0]) example_settings 0
        (initial_state\<lparr>scene := [Some good_view]\<rparr>)) 0 = Some Done
   \<and> new_events (initial_state\<lparr>scene := [Some good_view]\<rparr>)
     (dispatch (stub_env [] [0] []) example_settings 0 (initial_state\<lparr>scene := [Some good_view]\<rparr>)) =
       [SetStatus 0 Running, DMReconCtor 0, DMReconStart 0, SetStatus 0 Failed,
        Cerr ''reconstruction failed'']
   \<and> registry (dispatch (stub_env [] [0] []) example_settings 0
        (initial_state\<lparr>scene := [Some good_view]\<rparr>)) 0 = Some Failed
   \<and> SaveMveFile 0 \<notin> set (new_events (initial_state\<lparr>scene := [Some good_view]\<rparr>)
        (dispatch (stub_env [] [0] []) example_settings 0 (initial_state\<lparr>scene := [Some good_view]\<rparr>)))"
proof -
  let ?st = "initial_state\<lparr>scene := [Some good_view]\<rparr>"
  note t = persistence_follows_done [where env = "stub_env [] [] [0]" and s = example_settings
      and view_id = 0 and st = ?st and err = "''cannot save view''"
      and env_b = "stub_env [] [0] []" and s_b = example_settings and st_b = ?st
      and err_b = "''reconstruction failed''" and v = 0 and opts = "example_options 0 [] PROGRESS_SILENT"]
  note u = persistence_follows_done [where env = "stub_env [] [0] []" and s = example_settings
      and view_id = 0 and st = ?st and err = "''reconstruction failed''"
      and env_b = "stub_env [] [0] []" and s_b = example_settings and st_b = ?st
      and err_b = "''reconstruction failed''" and v = 0 and opts = "example_options 0 [] PROGRESS_SILENT"]
  have ok: "fst (reconstruct (stub_env [] [] [0]) (example_settings\<lparr>refViewNr := 0\<rparr>) ?st) = None"
    by (simp add: reconstruct_thrown stub_simps)
  have sv: "save_mve_file (stub_env [] [] [0])
      (scene (snd (reconstruct (stub_env [] [] [0]) (example_settings\<lparr>refViewNr := 0\<rparr>) ?st))) 0 =
      Some ''cannot save view''"
    by (simp add: stub_simps)
  have ko: "fst (reconstruct (stub_env [] [0] []) (example_settings\<lparr>refViewNr := 0\<rparr>) ?st) =
      Some ''reconstruction failed''"
    by (simp add: reconstruct_thrown stub_simps)
  from t [THEN conjunct1, THEN mp, OF ok]
  have a: "new_events ?st (dispatch (stub_env [] [] [0]) example_settings 0 ?st) =
       [SetStatus 0 Running, DMReconCtor 0, DMReconStart 0, SetStatus 0 Done, SaveMveFile 0,
        Cerr ''cannot save view'']
     \<and> registry (dispatch (stub_env [] [] [0]) example_settings 0 ?st) 0 = Some Done"
    by (simp add: sv)
  from u [THEN conjunct2, THEN conjunct1, THEN mp, OF ko]
  have b: "new_events ?st (dispatch (stub_env [] [0] []) example_settings 0 ?st) =
       [SetStatus 0 Running, DMReconCtor 0, DMReconStart 0, SetStatus 0 Failed,
        Cerr ''reconstruction failed'']
     \<and> registry (dispatch (stub_env [] [0] []) example_settings 0 ?st) 0 = Some Failed"
    by (simp add: stub_simps)
  from t [THEN conjunct2, THEN conjunct2, THEN conjunct1, THEN mp, OF conjI [OF ok conjI [OF sv ko]]]
  have c: "SaveMveFile 0 \<notin> set (new_events ?st (dispatch (stub_env [] [0] []) example_settings 0 ?st))"
    by simp
  from a b c show ?thesis by (intro conjI) simp_all
qed

section \<open>A run without the dashboard\<close>




section \<open>The output paths\<close>

text \<open>
  C9. The ply path of the settings is the base path, a separator, the ply suffix
  and two more separators: the separator of line 176 goes to the ply path and not
  to the log path. The log path is the base path directly followed by the log
  suffix and one separator.
\<close>

theorem mvs_settings_paths:
  "plyPath (mvs_settings opts) = basePath opts @ ''/'' @ plyDest opts @ ''/'' @ ''/''
   \<and> logPath (mvs_settings opts) = basePath opts @ logDest opts @ ''/''"
  by (simp add: mvs_settings_def Let_def)

end
